theory Spec2Isabelle
  imports Complex_Main "HOL-Library.Word"
begin

section \<open>Motion detection: frame differencing\<close>

text \<open>
  The pixel buffers are \<^verbatim>\<open>Uint8ClampedArray\<close>s: every element is a byte. Arithmetic on
  them is done on JavaScript numbers, so a byte is read as the integer \<open>uint b\<close> and
  the subtraction does not wrap. A read past the end of a typed array gives
  \<^verbatim>\<open>undefined\<close>, which turns every arithmetic result it reaches into \<^verbatim>\<open>NaN\<close>; the
  model keeps that as the value \<open>NaN\<close>. All numbers that arise are integers bounded by
  \<open>765 * (length data1 div 4)\<close>, which a double holds exactly for any array of fewer
  than \<open>2 ^ 45\<close> elements, so \<open>Num\<close> carries an unbounded \<open>int\<close>.
\<close>

type_synonym byte = "8 word"
type_synonym imagedata = "byte list"

datatype jsnum = Num int | NaN

definition ta_get :: "imagedata \<Rightarrow> nat \<Rightarrow> jsnum" where
  "ta_get d i = (if i < length d then Num (uint (d ! i)) else NaN)"

fun js_sub :: "jsnum \<Rightarrow> jsnum \<Rightarrow> jsnum" where
  "js_sub (Num a) (Num b) = Num (a - b)"
| "js_sub _ _ = NaN"

fun js_add :: "jsnum \<Rightarrow> jsnum \<Rightarrow> jsnum" where
  "js_add (Num a) (Num b) = Num (a + b)"
| "js_add _ _ = NaN"

fun js_abs :: "jsnum \<Rightarrow> jsnum" where
  "js_abs (Num a) = Num \<bar>a\<bar>"
| "js_abs NaN = NaN"

text \<open>\<^verbatim>\<open>x > c\<close>: false whenever \<open>x\<close> is \<^verbatim>\<open>NaN\<close>.\<close>

fun js_gt :: "jsnum \<Rightarrow> int \<Rightarrow> bool" where
  "js_gt (Num a) c = (a > c)"
| "js_gt NaN c = False"

text \<open>
  \<^verbatim>\<open>
  function getFrameDifference(data1, data2) {
    let diff = 0;
    for (let i = 0; i < data1.length; i += 4) {
      diff += Math.abs(data1[i] - data2[i]) +
              Math.abs(data1[i + 1] - data2[i + 1]) +
              Math.abs(data1[i + 2] - data2[i + 2]);
    }
    return diff;
  }
  \<close>
  The function is the same in \<^verbatim>\<open>src/unnamed/part_000\<close> and \<^verbatim>\<open>src/pages/index.tsx\<close>.
\<close>

function getFrameDifference_loop :: "imagedata \<Rightarrow> imagedata \<Rightarrow> nat \<Rightarrow> jsnum \<Rightarrow> jsnum" where
  "getFrameDifference_loop data1 data2 i diff =
     (if i < length data1
      then getFrameDifference_loop data1 data2 (i + 4)
             (js_add diff
                (js_add
                   (js_add (js_abs (js_sub (ta_get data1 i) (ta_get data2 i)))
                           (js_abs (js_sub (ta_get data1 (i + 1)) (ta_get data2 (i + 1)))))
                   (js_abs (js_sub (ta_get data1 (i + 2)) (ta_get data2 (i + 2))))))
      else diff)"
  by pat_completeness auto
termination
  by (relation "measure (\<lambda>(data1, data2, i, diff). length data1 - i)") auto

declare getFrameDifference_loop.simps [simp del]

definition getFrameDifference :: "imagedata \<Rightarrow> imagedata \<Rightarrow> jsnum" where
  "getFrameDifference data1 data2 = getFrameDifference_loop data1 data2 0 (Num 0)"

text \<open>
  The sum the specification names, written independently of the loop: pixel \<open>p\<close> occupies
  indices \<open>4p .. 4p+3\<close> (R, G, B, A); only the first three enter.
\<close>

definition spec_pixel_delta :: "imagedata \<Rightarrow> imagedata \<Rightarrow> nat \<Rightarrow> int" where
  "spec_pixel_delta d1 d2 p =
     \<bar>uint (d1 ! (4 * p)) - uint (d2 ! (4 * p))\<bar>
   + \<bar>uint (d1 ! (4 * p + 1)) - uint (d2 ! (4 * p + 1))\<bar>
   + \<bar>uint (d1 ! (4 * p + 2)) - uint (d2 ! (4 * p + 2))\<bar>"

definition spec_difference :: "imagedata \<Rightarrow> imagedata \<Rightarrow> int" where
  "spec_difference d1 d2 = sum_list (map (spec_pixel_delta d1 d2) [0..<length d1 div 4])"

section \<open>Motion detection: the sampling tick\<close>

text \<open>
  What one run of \<^verbatim>\<open>checkForMotion\<close> finds when it asks the track for a frame:
  no track or no \<^verbatim>\<open>getElement\<close> (silent return), an element that is missing or is not
  an \<^verbatim>\<open>HTMLVideoElement\<close> (logged, return), or the image data that
  \<^verbatim>\<open>getImageData(0, 0, 649, 480)\<close> returns.
\<close>

datatype source = NoTrack | BadElement | Frame imagedata

datatype effect =
    Callback
  | Alert string
  | ConsoleLog string
  | ConsoleError string
  | StartRecording

definition width :: nat where "width = 649"
definition height :: nat where "height = 480"
definition motionThreshold :: int where "motionThreshold = 7718920"

text \<open>
  The closure variables of \<^verbatim>\<open>detectMotion\<close> in \<^verbatim>\<open>src/unnamed/part_000\<close>:
  \<^verbatim>\<open>let lastImageData = null; let motionDetected = false;\<close>
\<close>

record detector =
  lastImageData :: "imagedata option"
  motionDetected :: bool

definition detector_init :: detector where
  "detector_init = \<lparr>lastImageData = None, motionDetected = False\<rparr>"

text \<open>
  \<^verbatim>\<open>checkForMotion\<close> of \<^verbatim>\<open>src/unnamed/part_000\<close>:
  \<^verbatim>\<open>
    if (!videoTrack || !videoTrack.getElement) return;
    const element = videoTrack.getElement();
    if (!element || !(element instanceof HTMLVideoElement)) {
      console.error('Expected HTMLVideoElement, got:', element);
      return;
    }
    context.drawImage(element, 0, 0, width, height);
    const imageData = context.getImageData(0, 0, width, height);
    if (lastImageData) {
      const diff = getFrameDifference(imageData.data, lastImageData.data);
      if (diff > 7718920 && !motionDetected) {
        motionDetected = true; // Prevent multiple alerts
        callback();
        if (isLocal) {
          console.log("Motion detected for local user.");
          startRecording(videoTrack);
        } else {
          console.log("Motion detected for remote user.");
        }
      }
    }
    lastImageData = imageData;
  \<close>
\<close>

definition checkForMotion :: "bool \<Rightarrow> detector \<Rightarrow> source \<Rightarrow> detector \<times> effect list" where
  "checkForMotion isLocal s src =
     (case src of
        NoTrack \<Rightarrow> (s, [])
      | BadElement \<Rightarrow> (s, [ConsoleError ''Expected HTMLVideoElement, got:''])
      | Frame imageData \<Rightarrow>
          (let (s1, effs) =
                 (case lastImageData s of
                    None \<Rightarrow> (s, [])
                  | Some last_data \<Rightarrow>
                      (let diff = getFrameDifference imageData last_data in
                       if js_gt diff motionThreshold \<and> \<not> motionDetected s
                       then (s\<lparr>motionDetected := True\<rparr>,
                             Callback #
                               (if isLocal
                                then [ConsoleLog ''Motion detected for local user.'', StartRecording]
                                else [ConsoleLog ''Motion detected for remote user.'']))
                       else (s, [])))
           in (s1\<lparr>lastImageData := Some imageData\<rparr>, effs)))"

text \<open>\<^verbatim>\<open>setInterval(checkForMotion, 2000)\<close>: one entry of the result per tick.\<close>

fun detectMotion_ticks :: "bool \<Rightarrow> detector \<Rightarrow> source list \<Rightarrow> effect list list" where
  "detectMotion_ticks isLocal s [] = []"
| "detectMotion_ticks isLocal s (x # xs) =
     snd (checkForMotion isLocal s x) # detectMotion_ticks isLocal (fst (checkForMotion isLocal s x)) xs"

definition detectMotion :: "bool \<Rightarrow> source list \<Rightarrow> effect list list" where
  "detectMotion isLocal ins = detectMotion_ticks isLocal detector_init ins"

text \<open>
  \<^verbatim>\<open>checkForMotion\<close> of \<^verbatim>\<open>src/pages/index.tsx\<close>: the same tick without the
  \<^verbatim>\<open>motionDetected\<close> variable; its only closure variable is \<^verbatim>\<open>lastImageData\<close>.
  \<^verbatim>\<open>
    if (lastImageData) {
      const diff = getFrameDifference(imageData.data, lastImageData.data);
      if (diff > 7718920) {
        callback();
        if (isLocal) { alert(`You moved`); } else { alert(`User moved`); }
      }
    }
    lastImageData = imageData;
  \<close>
\<close>

definition checkForMotion_pages :: "bool \<Rightarrow> imagedata option \<Rightarrow> source \<Rightarrow> imagedata option \<times> effect list" where
  "checkForMotion_pages isLocal lastData src =
     (case src of
        NoTrack \<Rightarrow> (lastData, [])
      | BadElement \<Rightarrow> (lastData, [ConsoleError ''Expected HTMLVideoElement, got:''])
      | Frame imageData \<Rightarrow>
          (Some imageData,
           (case lastData of
              None \<Rightarrow> []
            | Some last_data \<Rightarrow>
                (let diff = getFrameDifference imageData last_data in
                 if js_gt diff motionThreshold
                 then [Callback, Alert (if isLocal then ''You moved'' else ''User moved'')]
                 else []))))"

fun detectMotion_pages_ticks :: "bool \<Rightarrow> imagedata option \<Rightarrow> source list \<Rightarrow> effect list list" where
  "detectMotion_pages_ticks isLocal l [] = []"
| "detectMotion_pages_ticks isLocal l (x # xs) =
     snd (checkForMotion_pages isLocal l x)
       # detectMotion_pages_ticks isLocal (fst (checkForMotion_pages isLocal l x)) xs"

definition detectMotion_pages :: "bool \<Rightarrow> source list \<Rightarrow> effect list list" where
  "detectMotion_pages isLocal ins = detectMotion_pages_ticks isLocal None ins"

text \<open>
  The vocabulary of the specification for a run of ticks: whether a tick is a sample
  whose difference against the previous stored sample is strictly above the threshold,
  and the marking of the first such tick only.
\<close>

fun spec_above :: "imagedata option \<Rightarrow> source list \<Rightarrow> bool list" where
  "spec_above prev [] = []"
| "spec_above prev (Frame f # xs) =
     (case prev of
        None \<Rightarrow> False
      | Some l \<Rightarrow> js_gt (getFrameDifference f l) motionThreshold) # spec_above (Some f) xs"
| "spec_above prev (x # xs) = False # spec_above prev xs"

fun spec_first_only :: "bool list \<Rightarrow> bool list" where
  "spec_first_only [] = []"
| "spec_first_only (True # bs) = True # replicate (length bs) False"
| "spec_first_only (False # bs) = False # spec_first_only bs"

definition fired :: "effect list list \<Rightarrow> bool list" where
  "fired ticks = map (\<lambda>effs. Callback \<in> set effs) ticks"

definition events :: "effect list list \<Rightarrow> nat" where
  "events ticks = count_list (concat ticks) Callback"

section \<open>Recording\<close>

text \<open>
  The module-level state of \<^verbatim>\<open>src/unnamed/part_000\<close>:
  \<^verbatim>\<open>let mediaRecorder: MediaRecorder; let recordedChunks: Blob[] = [];\<close>
  A \<^verbatim>\<open>Blob\<close> is its bytes; \<^verbatim>\<open>new Blob(parts)\<close> is their concatenation. The
  \<^verbatim>\<open>MediaRecorder\<close> objects live in a store, in creation order, and the variable
  \<^verbatim>\<open>mediaRecorder\<close> holds the index of the object it refers to (\<open>None\<close> while it is
  unassigned). Of a recorder only its \<^verbatim>\<open>state\<close> attribute matters here; every recorder
  that \<^verbatim>\<open>startRecording\<close> creates gets the same two handlers, \<open>ondataavailable\<close> and
  \<open>generateGif\<close> below. \<open>timers\<close> are the due times (ms) of the pending
  \<^verbatim>\<open>setTimeout\<close> callbacks, \<open>gifInputs\<close> the \<^verbatim>\<open>videoBlob\<close> of every call of
  \<^verbatim>\<open>generateGif\<close> in call order, \<open>console\<close> the lines logged.
\<close>

type_synonym blob = "byte list"

datatype recorder_state = Inactive | Recording

record recording_module =
  mediaRecorder :: "nat option"
  recordedChunks :: "blob list"
  recorders :: "recorder_state list"
  timers :: "nat list"
  gifInputs :: "blob list"
  console :: "effect list"

definition module_init :: recording_module where
  "module_init = \<lparr>mediaRecorder = None, recordedChunks = [], recorders = [], timers = [],
                   gifInputs = [], console = []\<rparr>"

text \<open>
  \<^verbatim>\<open>
  async function startRecording(videoTrack) {
    const videoElement = videoTrack.getElement();
    if (!videoElement) {
      console.error("No video element found for recording.");
      return;
    }
    console.log("Starting recording...");
    const stream = videoElement.captureStream();
    mediaRecorder = new MediaRecorder(stream, { mimeType: 'video/webm' });
    mediaRecorder.ondataavailable = function(event) { ... };
    mediaRecorder.onstop = generateGif;
    mediaRecorder.start();
    setTimeout(() => {
      console.log("Stopping recording...");
      mediaRecorder.stop();
    }, 5000);
  }
  \<close>
  \<open>now\<close> is the time of the call in ms, the second argument what \<^verbatim>\<open>getElement()\<close>
  returns. A new recorder is inactive, so \<^verbatim>\<open>start()\<close> puts it into the recording
  state. The function reads neither \<^verbatim>\<open>mediaRecorder\<close> nor any recorder's state before
  it assigns.
\<close>

definition startRecording :: "nat \<Rightarrow> nat option \<Rightarrow> recording_module \<Rightarrow> recording_module" where
  "startRecording now videoElement st =
     (case videoElement of
        None \<Rightarrow> st\<lparr>console := console st @ [ConsoleError ''No video element found for recording.'']\<rparr>
      | Some el \<Rightarrow>
          st\<lparr>console := console st @ [ConsoleLog ''Starting recording...''],
             recorders := recorders st @ [Recording],
             mediaRecorder := Some (length (recorders st)),
             timers := timers st @ [now + 5000]\<rparr>)"

text \<open>
  \<^verbatim>\<open>
    mediaRecorder.ondataavailable = function(event) {
      if (event.data.size > 0) {
        recordedChunks.push(event.data);
        console.log("Data available:", event.data);
      }
    };
  \<close>
\<close>

definition ondataavailable :: "blob \<Rightarrow> recording_module \<Rightarrow> recording_module" where
  "ondataavailable data st =
     (if length data > 0
      then st\<lparr>recordedChunks := recordedChunks st @ [data],
              console := console st @ [ConsoleLog ''Data available:'']\<rparr>
      else st)"

text \<open>
  The synchronous part of \<^verbatim>\<open>generateGif\<close>:
  \<^verbatim>\<open>
    console.log("Generating GIF...");
    const videoBlob = new Blob(recordedChunks, { type: 'video/webm' });
    const videoUrl = URL.createObjectURL(videoBlob);
    const video = document.createElement('video');
    video.src = videoUrl;
    video.muted = true;
    console.log("Video URL created:", videoUrl);
  \<close>
  It reads \<^verbatim>\<open>recordedChunks\<close> and does not assign it.
\<close>

definition generateGif :: "recording_module \<Rightarrow> recording_module" where
  "generateGif st =
     st\<lparr>console := console st @ [ConsoleLog ''Generating GIF...'', ConsoleLog ''Video URL created:''],
        gifInputs := gifInputs st @ [concat (recordedChunks st)]\<rparr>"

text \<open>
  The browser's side of a recorder. A recorder in the recording state may deliver a chunk
  (\<open>recorder_dataavailable\<close>); \<^verbatim>\<open>stop()\<close> on it makes it inactive, delivers the data it
  has gathered and then fires \<^verbatim>\<open>stop\<close>, whose handler is \<open>generateGif\<close>
  (\<open>recorder_stop\<close>). An inactive recorder delivers nothing, and \<^verbatim>\<open>stop()\<close> on it does
  nothing. The data a recorder has gathered is an input.
\<close>

definition recorder_dataavailable :: "nat \<Rightarrow> blob \<Rightarrow> recording_module \<Rightarrow> recording_module" where
  "recorder_dataavailable r data st =
     (if r < length (recorders st) \<and> recorders st ! r = Recording
      then ondataavailable data st else st)"

definition recorder_stop :: "nat \<Rightarrow> blob \<Rightarrow> recording_module \<Rightarrow> recording_module" where
  "recorder_stop r data st =
     (if r < length (recorders st) \<and> recorders st ! r = Recording
      then generateGif (ondataavailable data (st\<lparr>recorders := (recorders st)[r := Inactive]\<rparr>))
      else st)"

text \<open>
  The callback of \<^verbatim>\<open>setTimeout(..., 5000)\<close>, run for the oldest pending timer, which is
  thereby spent:
  \<^verbatim>\<open>console.log("Stopping recording..."); mediaRecorder.stop();\<close>
  It stops the recorder that the variable \<^verbatim>\<open>mediaRecorder\<close> refers to when the timer
  fires. With no pending timer nothing runs.
\<close>

definition stopTimeout :: "blob \<Rightarrow> recording_module \<Rightarrow> recording_module" where
  "stopTimeout data st =
     (case timers st of
        [] \<Rightarrow> st
      | due # rest \<Rightarrow>
          (let st1 = st\<lparr>timers := rest, console := console st @ [ConsoleLog ''Stopping recording...'']\<rparr>
           in case mediaRecorder st1 of
                None \<Rightarrow> st1
              | Some r \<Rightarrow> recorder_stop r data st1))"

text \<open>
  Recordings one after the other: each is a call of \<open>startRecording\<close> at some time on
  some element, followed by its timer firing with the data the recorder gathered.
\<close>

fun sessions :: "(nat \<times> nat \<times> blob) list \<Rightarrow> recording_module \<Rightarrow> recording_module" where
  "sessions [] st = st"
| "sessions ((now, el, data) # rest) st =
     sessions rest (stopTimeout data (startRecording now (Some el) st))"

definition active_recorders :: "recording_module \<Rightarrow> nat" where
  "active_recorders st = length (filter (\<lambda>r. r = Recording) (recorders st))"

section \<open>Encoding\<close>

text \<open>
  The asynchronous part of \<^verbatim>\<open>generateGif\<close>, from the moment \<^verbatim>\<open>video.play()\<close> has
  resolved: a new \<^verbatim>\<open>GIF\<close> without frames exists and the \<^verbatim>\<open>timeupdate\<close> listener is
  registered. A frame of the GIF is the canvas drawn from the video at some
  \<^verbatim>\<open>currentTime\<close> (seconds), with its delay. \<open>rendered\<close> holds, for every call of
  \<^verbatim>\<open>gif.render()\<close>, the frames the GIF had at the call.
\<close>

record gif_frame =
  drawnAt :: rat
  delay :: nat

record encoder =
  gif_frames :: "gif_frame list"
  rendered :: "gif_frame list list"
  video_paused :: bool
  enc_console :: "effect list"

definition encoder_init :: encoder where
  "encoder_init = \<lparr>gif_frames = [], rendered = [], video_paused = False, enc_console = []\<rparr>"

text \<open>
  \<^verbatim>\<open>
      video.addEventListener('timeupdate', function() {
        if (video.currentTime >= 5) {
          video.pause();
          gif.render();
        } else {
          const canvas = document.createElement('canvas');
          canvas.width = video.videoWidth;
          canvas.height = video.videoHeight;
          const ctx = canvas.getContext('2d');
          ctx.drawImage(video, 0, 0, canvas.width, canvas.height);
          gif.addFrame(canvas, { delay: 100 });
        }
      });
  \<close>
\<close>

definition ontimeupdate :: "rat \<Rightarrow> encoder \<Rightarrow> encoder" where
  "ontimeupdate currentTime enc =
     (if currentTime \<ge> 5
      then enc\<lparr>video_paused := True, rendered := rendered enc @ [gif_frames enc]\<rparr>
      else enc\<lparr>gif_frames := gif_frames enc @ [\<lparr>drawnAt = currentTime, delay = 100\<rparr>]\<rparr>)"

text \<open>The \<^verbatim>\<open>timeupdate\<close> events of a playback, by the \<^verbatim>\<open>currentTime\<close> each one sees.\<close>

fun timeupdates :: "rat list \<Rightarrow> encoder \<Rightarrow> encoder" where
  "timeupdates [] enc = enc"
| "timeupdates (t # ts) enc = timeupdates ts (ontimeupdate t enc)"

text \<open>
  \<^verbatim>\<open>
    video.addEventListener('error', (e) => {
      console.error("Error loading video:", e);
    });
  \<close>
\<close>

definition onerror :: "encoder \<Rightarrow> encoder" where
  "onerror enc = enc\<lparr>enc_console := enc_console enc @ [ConsoleError ''Error loading video:'']\<rparr>"

text \<open>
  \<^verbatim>\<open>
      gif.on('finished', function(blob) {
        const gifUrl = URL.createObjectURL(blob);
        console.log("Generated GIF URL: ", gifUrl);
        displayGif(gifUrl);
      });

  function displayGif(url: string) {
    setGifUrl(url);
    console.log("Displaying GIF URL: ", url);
  }
  \<close>
  \<^verbatim>\<open>displayGif\<close> is declared at module level, while \<^verbatim>\<open>setGifUrl\<close> is a local constant of
  the component function \<^verbatim>\<open>Home\<close>: the name is not in scope in \<^verbatim>\<open>displayGif\<close>, and
  evaluating it throws a \<^verbatim>\<open>ReferenceError\<close>. The sink is the component state \<^verbatim>\<open>gifUrl\<close>.
\<close>

datatype js_error = ReferenceError string | Error string

definition displayGif :: "blob \<Rightarrow> blob option \<Rightarrow> js_error + blob option" where
  "displayGif url gifUrl = Inl (ReferenceError ''setGifUrl'')"

definition onfinished :: "blob \<Rightarrow> blob option \<Rightarrow> js_error + blob option" where
  "onfinished blob gifUrl = displayGif blob gifUrl"

text \<open>
  The library's side of \<^verbatim>\<open>gif.render()\<close> (gif.js). The call throws
  \<^verbatim>\<open>'Already running'\<close> while an earlier render of the same GIF is running, and
  \<^verbatim>\<open>'Width and height must be set prior to rendering'\<close> when the GIF has neither.
  \<^verbatim>\<open>new GIF({ workers: 2, quality: 10 })\<close> sets neither, and \<^verbatim>\<open>addFrame\<close> sets both
  from the first image it is given, so they are set exactly when a frame has been added.
  Otherwise rendering starts on the frames the GIF has, and the \<^verbatim>\<open>finished\<close> event
  carries the artifact made of them.
\<close>

definition gif_render :: "bool \<Rightarrow> gif_frame list \<Rightarrow> js_error + gif_frame list" where
  "gif_render running fs =
     (if running then Inl (Error ''Already running'')
      else if fs = [] then Inl (Error ''Width and height must be set prior to rendering'')
      else Inr fs)"

text \<open>
  The exception, if any, that leaves the \<^verbatim>\<open>timeupdate\<close> listener: the listener has no
  \<^verbatim>\<open>try\<close>, and \<^verbatim>\<open>gif.render()\<close> is its only call that throws. \<open>running\<close> says
  whether an earlier render of the GIF is still running.
\<close>

definition ontimeupdate_throws :: "bool \<Rightarrow> rat \<Rightarrow> encoder \<Rightarrow> js_error option" where
  "ontimeupdate_throws running currentTime enc =
     (if currentTime \<ge> 5
      then (case gif_render running (gif_frames enc) of Inl e \<Rightarrow> Some e | Inr fs \<Rightarrow> None)
      else None)"

text \<open>
  The artifacts that can reach the \<^verbatim>\<open>finished\<close> handler, and through it
  \<open>displayGif\<close>: one for every call of \<^verbatim>\<open>gif.render()\<close> that does not throw even
  when no other render is running.
\<close>

definition finished_events :: "encoder \<Rightarrow> gif_frame list list" where
  "finished_events enc = filter (\<lambda>fs. gif_render False fs = Inr fs) (rendered enc)"

section \<open>Sample frames\<close>

text \<open>
  Sample frames of \<open>n\<close> pixels, every pixel the same \<open>(r, g, b, a)\<close>; the detector's
  frames have \<open>n = width * height\<close>.
\<close>

definition solid_frame :: "nat \<Rightarrow> byte \<Rightarrow> byte \<Rightarrow> byte \<Rightarrow> byte \<Rightarrow> imagedata" where
  "solid_frame n r g b a = concat (replicate n [r, g, b, a])"

definition black_frame :: imagedata where
  "black_frame = solid_frame (width * height) 0 0 0 0"

definition red_frame :: imagedata where
  "red_frame = solid_frame (width * height) 255 0 0 255"

section \<open>Properties of the frame difference\<close>

lemma loop_done: "length d1 \<le> i \<Longrightarrow> getFrameDifference_loop d1 d2 i diff = diff"
  by (subst getFrameDifference_loop.simps) simp

lemma loop_sum:
  "length d1 = length d2 \<Longrightarrow> length d1 = 4 * n \<Longrightarrow> p \<le> n \<Longrightarrow>
   getFrameDifference_loop d1 d2 (4 * p) (Num acc)
     = Num (acc + sum_list (map (spec_pixel_delta d1 d2) [p..<n]))"
proof (induction "n - p" arbitrary: p acc)
  case 0
  then have "p = n" by simp
  with 0 show ?case
    by (simp add: loop_done)
next
  case (Suc k)
  then have lt: "p < n" and k: "k = n - Suc p" by simp_all
  have step: "getFrameDifference_loop d1 d2 (4 * p) (Num acc)
              = getFrameDifference_loop d1 d2 (4 * p + 4) (Num (acc + spec_pixel_delta d1 d2 p))"
    using lt Suc.prems
    by (subst getFrameDifference_loop.simps) (simp add: ta_get_def spec_pixel_delta_def)
  have idx: "4 * p + 4 = 4 * Suc p" by simp
  have "getFrameDifference_loop d1 d2 (4 * p + 4) (Num (acc + spec_pixel_delta d1 d2 p))
        = Num (acc + spec_pixel_delta d1 d2 p + sum_list (map (spec_pixel_delta d1 d2) [Suc p..<n]))"
    unfolding idx using Suc.hyps(1) [OF k] Suc.prems lt by simp
  with step lt show ?case
    by (simp add: upt_conv_Cons)
qed

lemma getFrameDifference_spec:
  "length d1 = length d2 \<Longrightarrow> 4 dvd length d1 \<Longrightarrow>
   getFrameDifference d1 d2 = Num (spec_difference d1 d2)"
  using loop_sum [of d1 d2 "length d1 div 4" 0 0]
  by (auto simp: getFrameDifference_def spec_difference_def)

lemma spec_pixel_delta_nonneg: "0 \<le> spec_pixel_delta d1 d2 p"
  by (simp add: spec_pixel_delta_def)

lemma spec_difference_nonneg: "0 \<le> spec_difference d1 d2"
  unfolding spec_difference_def
  by (rule sum_list_nonneg) (auto simp: spec_pixel_delta_nonneg)

lemma spec_difference_alpha:
  "spec_difference (d1[4 * p + 3 := a]) (d2[4 * q + 3 := b]) = spec_difference d1 d2"
proof -
  have ne: "\<And>r k. k < 3 \<Longrightarrow> 4 * r + k \<noteq> 4 * p + 3 \<and> 4 * r + k \<noteq> 4 * q + 3"
    by presburger
  have "spec_pixel_delta (d1[4 * p + 3 := a]) (d2[4 * q + 3 := b]) r = spec_pixel_delta d1 d2 r" for r
    using ne [of 0 r] ne [of 1 r] ne [of 2 r]
    by (simp add: spec_pixel_delta_def)
  then have "spec_pixel_delta (d1[4 * p + 3 := a]) (d2[4 * q + 3 := b]) = spec_pixel_delta d1 d2"
    by (rule ext)
  then show ?thesis
    by (simp add: spec_difference_def)
qed

text \<open>
  C2. For two buffers of the same length, a whole number of 4-byte pixels, the result of
  \<open>getFrameDifference\<close> is the sum over all pixels of \<open>|R1-R2| + |G1-G2| + |B1-B2|\<close>;
  it is a non-negative integer; and the fourth byte of a pixel does not enter: overwriting
  the alpha byte of any pixel in either buffer leaves the result unchanged.
\<close>

theorem getFrameDifference_rgb_sum:
  assumes "length d1 = length d2" and "4 dvd length d1"
  shows "getFrameDifference d1 d2 = Num (spec_difference d1 d2)
       \<and> 0 \<le> spec_difference d1 d2
       \<and> getFrameDifference (d1[4 * p + 3 := a]) (d2[4 * q + 3 := b]) = getFrameDifference d1 d2"
proof -
  have "getFrameDifference (d1[4 * p + 3 := a]) (d2[4 * q + 3 := b])
        = Num (spec_difference (d1[4 * p + 3 := a]) (d2[4 * q + 3 := b]))"
    using assms by (intro getFrameDifference_spec) simp_all
  with assms show ?thesis
    by (simp add: getFrameDifference_spec spec_difference_nonneg spec_difference_alpha)
qed

theorem getFrameDifference_rgb_sum_witness:
  "length [10, 20, 30, 255, 0, 0, 0, 0 :: byte] = length [7, 25, 30, 0, 1, 2, 3, 4 :: byte]
   \<and> 4 dvd length [10, 20, 30, 255, 0, 0, 0, 0 :: byte]
   \<and> getFrameDifference [10, 20, 30, 255, 0, 0, 0, 0] [7, 25, 30, 0, 1, 2, 3, 4] = Num 14
   \<and> getFrameDifference [10, 20, 30, 9, 0, 0, 0, 0] [7, 25, 30, 0, 1, 2, 3, 8] = Num 14"
proof -
  have h1: "length [10, 20, 30, 255, 0, 0, 0, 0 :: byte] = length [7, 25, 30, 0, 1, 2, 3, 4 :: byte]"
    by simp
  have h2: "4 dvd length [10, 20, 30, 255, 0, 0, 0, 0 :: byte]"
    by code_simp
  have v: "spec_difference [10, 20, 30, 255, 0, 0, 0, 0] [7, 25, 30, 0, 1, 2, 3, 4] = 14"
    by code_simp
  from getFrameDifference_rgb_sum [OF h1 h2, of 0 9 1 8] v h1 h2 show ?thesis
    by simp
qed

section \<open>Properties of the sampling tick\<close>

lemma checkForMotion_fst_last:
  "lastImageData (fst (checkForMotion isLocal s x))
     = (case x of Frame f \<Rightarrow> Some f | _ \<Rightarrow> lastImageData s)"
  by (simp add: checkForMotion_def Let_def split: source.splits option.splits)

lemma checkForMotion_fired:
  "Callback \<in> set (snd (checkForMotion isLocal s x))
     \<longleftrightarrow> \<not> motionDetected s \<and> hd (spec_above (lastImageData s) [x])"
  by (cases x) (auto simp: checkForMotion_def Let_def split: option.splits)

lemma checkForMotion_count:
  "count_list (snd (checkForMotion isLocal s x)) Callback
     = (if Callback \<in> set (snd (checkForMotion isLocal s x)) then 1 else 0)"
  by (cases x) (auto simp: checkForMotion_def Let_def split: option.splits)

lemma checkForMotion_latch:
  "motionDetected (fst (checkForMotion isLocal s x))
     \<longleftrightarrow> motionDetected s \<or> Callback \<in> set (snd (checkForMotion isLocal s x))"
  by (cases x) (auto simp: checkForMotion_def Let_def split: option.splits)

lemma spec_above_step:
  "spec_above prev (x # xs)
     = hd (spec_above prev [x]) # spec_above (case x of Frame f \<Rightarrow> Some f | _ \<Rightarrow> prev) xs"
  by (cases x) simp_all

lemma length_spec_above: "length (spec_above p xs) = length xs"
  by (induction p xs rule: spec_above.induct) simp_all

lemma ticks_latched:
  "motionDetected s \<Longrightarrow>
   fired (detectMotion_ticks isLocal s ins) = replicate (length ins) False
   \<and> events (detectMotion_ticks isLocal s ins) = 0"
proof (induction ins arbitrary: s)
  case Nil
  show ?case by (simp add: fired_def events_def)
next
  case (Cons x xs)
  have nf: "Callback \<notin> set (snd (checkForMotion isLocal s x))"
    using Cons.prems by (simp add: checkForMotion_fired)
  have "motionDetected (fst (checkForMotion isLocal s x))"
    using Cons.prems by (simp add: checkForMotion_latch)
  from Cons.IH [OF this] nf show ?case
    by (simp add: fired_def events_def checkForMotion_count)
qed

lemma ticks_idle:
  "\<not> motionDetected s \<Longrightarrow>
   fired (detectMotion_ticks isLocal s ins) = spec_first_only (spec_above (lastImageData s) ins)
   \<and> events (detectMotion_ticks isLocal s ins)
       = (if True \<in> set (spec_above (lastImageData s) ins) then 1 else 0)"
proof (induction ins arbitrary: s)
  case Nil
  show ?case by (simp add: fired_def events_def)
next
  case (Cons x xs)
  let ?s' = "fst (checkForMotion isLocal s x)"
  let ?b = "hd (spec_above (lastImageData s) [x])"
  have f: "Callback \<in> set (snd (checkForMotion isLocal s x)) \<longleftrightarrow> ?b"
    using Cons.prems by (simp add: checkForMotion_fired)
  have l: "lastImageData ?s' = (case x of Frame f \<Rightarrow> Some f | _ \<Rightarrow> lastImageData s)"
    by (rule checkForMotion_fst_last)
  show ?case
  proof (cases ?b)
    case True
    then have "motionDetected ?s'"
      using f by (simp add: checkForMotion_latch)
    from ticks_latched [OF this, of isLocal xs] True f show ?thesis
      by (simp add: fired_def events_def checkForMotion_count spec_above_step [of _ x xs]
            length_spec_above)
  next
    case False
    then have "\<not> motionDetected ?s'"
      using f Cons.prems by (simp add: checkForMotion_latch)
    from Cons.IH [OF this] False f l show ?thesis
      by (simp add: fired_def events_def checkForMotion_count spec_above_step [of _ x xs])
  qed
qed

lemma ticks_pages:
  "fired (detectMotion_pages_ticks isLocal l ins) = spec_above l ins"
proof (induction ins arbitrary: l)
  case Nil
  show ?case by (simp add: fired_def)
next
  case (Cons x xs)
  then show ?case
    by (cases x) (auto simp: fired_def checkForMotion_pages_def Let_def split: option.splits)
qed

lemma spec_first_only_nth:
  "k < length bs \<Longrightarrow> spec_first_only bs ! k \<longleftrightarrow> bs ! k \<and> (\<forall>j<k. \<not> bs ! j)"
proof (induction bs arbitrary: k rule: spec_first_only.induct)
  case 1
  then show ?case by simp
next
  case (2 bs)
  then show ?case by (cases k) auto
next
  case (3 bs)
  show ?case
  proof (cases k)
    case 0
    then show ?thesis by simp
  next
    case (Suc k')
    with 3 have "spec_first_only bs ! k' \<longleftrightarrow> bs ! k' \<and> (\<forall>j<k'. \<not> bs ! j)" by simp
    moreover have "(\<forall>j<Suc k'. \<not> (False # bs) ! j) \<longleftrightarrow> (\<forall>j<k'. \<not> bs ! j)"
      by (auto simp: less_Suc_eq_0_disj)
    ultimately show ?thesis using Suc by simp
  qed
qed

subsection \<open>Solid frames\<close>

lemma length_solid_frame: "length (solid_frame n r g b a) = 4 * n"
  by (induction n) (simp_all add: solid_frame_def)

lemma solid_frame_Suc: "solid_frame (Suc n) r g b a = [r, g, b, a] @ solid_frame n r g b a"
  by (simp add: solid_frame_def)

lemma nth_solid_frame:
  "p < n \<Longrightarrow> solid_frame n r g b a ! (4 * p) = r
           \<and> solid_frame n r g b a ! (4 * p + 1) = g
           \<and> solid_frame n r g b a ! (4 * p + 2) = b"
proof (induction n arbitrary: p)
  case 0
  then show ?case by simp
next
  case (Suc n)
  show ?case
  proof (cases p)
    case 0
    then show ?thesis by (simp add: solid_frame_Suc)
  next
    case (Suc p')
    with Suc.prems have "p' < n" by simp
    from Suc.IH [OF this] Suc show ?thesis
      by (simp add: solid_frame_Suc)
  qed
qed

lemma solid_frame_zero: "solid_frame n 0 0 0 0 = replicate (4 * n) 0"
proof (induction n)
  case 0
  show ?case by (simp add: solid_frame_def)
next
  case (Suc n)
  have "replicate (4 * Suc n) (0::byte) = replicate 4 0 @ replicate (4 * n) 0"
    by (simp add: replicate_add [symmetric])
  moreover have "replicate 4 (0::byte) = [0, 0, 0, 0]"
    by (simp add: numeral_eq_Suc)
  ultimately show ?case
    using Suc by (simp add: solid_frame_Suc)
qed

lemma sum_list_const_upt:
  assumes "\<And>p. p < n \<Longrightarrow> f p = (c::int)"
  shows "sum_list (map f [0..<n]) = int n * c"
proof -
  have "map f [0..<n] = map (\<lambda>_. c) [0..<n]"
    using assms by (intro map_cong) simp_all
  then show ?thesis
    by (simp add: map_replicate_const sum_list_replicate)
qed

lemma getFrameDifference_solid:
  "getFrameDifference (solid_frame n r g b a) (solid_frame n r' g' b' a')
     = Num (int n * (\<bar>uint r - uint r'\<bar> + \<bar>uint g - uint g'\<bar> + \<bar>uint b - uint b'\<bar>))"
proof -
  have "spec_difference (solid_frame n r g b a) (solid_frame n r' g' b' a')
        = int n * (\<bar>uint r - uint r'\<bar> + \<bar>uint g - uint g'\<bar> + \<bar>uint b - uint b'\<bar>)"
  proof -
    have "spec_pixel_delta (solid_frame n r g b a) (solid_frame n r' g' b' a') p
          = \<bar>uint r - uint r'\<bar> + \<bar>uint g - uint g'\<bar> + \<bar>uint b - uint b'\<bar>" if "p < n" for p
      using nth_solid_frame [OF that, of r g b a] nth_solid_frame [OF that, of r' g' b' a']
      by (simp add: spec_pixel_delta_def)
    then show ?thesis
      unfolding spec_difference_def length_solid_frame
      by (simp add: sum_list_const_upt)
  qed
  then show ?thesis
    by (simp add: getFrameDifference_spec length_solid_frame)
qed

lemma red_black:
  "getFrameDifference red_frame black_frame = Num 79437600"
  "getFrameDifference black_frame red_frame = Num 79437600"
  "getFrameDifference black_frame black_frame = Num 0"
  "getFrameDifference red_frame red_frame = Num 0"
  by (simp_all add: black_frame_def red_frame_def getFrameDifference_solid width_def height_def)


lemma detectMotion_idle:
  "fired (detectMotion isLocal ins) = spec_first_only (spec_above None ins)
   \<and> events (detectMotion isLocal ins) = (if True \<in> set (spec_above None ins) then 1 else 0)"
  using ticks_idle [of detector_init isLocal ins]
  by (simp add: detectMotion_def detector_init_def)

text \<open>
  C1 (as amended). In the detector of \<^verbatim>\<open>src/unnamed/part_000\<close>, over every sequence of
  ticks from the initial state, the callback fires exactly on the first tick whose sample
  differs from the previous stored sample by strictly more than the threshold, and on no
  other tick; the number of callbacks of the whole run is 1 if there is such a tick and 0
  otherwise; and a tick never clears \<open>motionDetected\<close> once it is set. The detector of
  \<^verbatim>\<open>src/pages/index.tsx\<close> has no latch: its callback fires on every tick whose sample is
  above the threshold.
\<close>

theorem detection_fires_once_when_latched:
  "fired (detectMotion isLocal ins) = spec_first_only (spec_above None ins)
   \<and> events (detectMotion isLocal ins) = (if True \<in> set (spec_above None ins) then 1 else 0)
   \<and> motionDetected (fst (checkForMotion isLocal (s\<lparr>motionDetected := True\<rparr>) x))
   \<and> fired (detectMotion_pages isLocal ins) = spec_above None ins"
  by (simp add: detectMotion_idle checkForMotion_latch ticks_pages detectMotion_pages_def)

theorem detection_fires_once_when_latched_witness:
  "fired (detectMotion True [Frame black_frame, Frame red_frame, BadElement, Frame black_frame, Frame red_frame])
     = [False, True, False, False, False]
   \<and> events (detectMotion True [Frame black_frame, Frame red_frame, BadElement, Frame black_frame, Frame red_frame]) = 1
   \<and> fired (detectMotion_pages True [Frame black_frame, Frame red_frame, BadElement, Frame black_frame, Frame red_frame])
     = [False, True, False, True, True]"
  using detection_fires_once_when_latched [of True "[Frame black_frame, Frame red_frame, BadElement, Frame black_frame, Frame red_frame]"
      detector_init NoTrack]
  by (simp add: red_black motionThreshold_def)

text \<open>
  C1 as stated fails on \<^verbatim>\<open>src/pages/index.tsx\<close>: on a black, a red and again a black
  649 x 480 frame the second and the third tick are both above the threshold, and the
  callback fires twice.
\<close>

theorem unlatched_detector_fires_twice:
  "events (detectMotion_pages True [Frame black_frame, Frame red_frame, Frame black_frame]) = 2"
  by (simp add: detectMotion_pages_def checkForMotion_pages_def events_def red_black motionThreshold_def)

lemma spec_pixel_delta_red:
  assumes "length cur = 4 * n" and "p < n"
    and "cur ! (4 * p) = 255 \<and> cur ! (4 * p + 1) = 0 \<and> cur ! (4 * p + 2) = 0"
  shows "spec_pixel_delta cur (replicate (4 * n) 0) p = 255"
  using assms by (simp add: spec_pixel_delta_def)

text \<open>
  C4 (as amended). When the previous 649 x 480 sample is all-zero and the current sample
  has red 255, green 0 and blue 0 at every pixel (alpha free), the difference is
  \<open>649 * 480 * 255 = 79,437,600\<close>, it is above the threshold 7,718,920, and the run
  that samples the two frames, then anything else, fires exactly one callback.
\<close>

theorem red_saturation_scenario:
  assumes "prev = replicate (4 * (width * height)) 0"
    and "length cur = 4 * (width * height)"
    and "\<forall>p < width * height. cur ! (4 * p) = 255 \<and> cur ! (4 * p + 1) = 0 \<and> cur ! (4 * p + 2) = 0"
  shows "getFrameDifference cur prev = Num 79437600
       \<and> (79437600 :: int) = 649 * 480 * 255
       \<and> js_gt (getFrameDifference cur prev) 7718920
       \<and> events (detectMotion isLocal (Frame prev # Frame cur # rest)) = 1"
proof -
  have "spec_difference cur prev = int (width * height) * 255"
    unfolding spec_difference_def assms(1)
    using assms(2,3) by (simp add: sum_list_const_upt spec_pixel_delta_red)
  then have d: "getFrameDifference cur prev = Num 79437600"
    using assms(1,2) by (simp add: getFrameDifference_spec width_def height_def)
  then have "True \<in> set (spec_above None (Frame prev # Frame cur # rest))"
    by (simp add: motionThreshold_def)
  with d show ?thesis
    by (simp add: detectMotion_idle)
qed

theorem red_saturation_scenario_witness:
  "black_frame = replicate (4 * (width * height)) 0
   \<and> length red_frame = 4 * (width * height)
   \<and> getFrameDifference red_frame black_frame = Num 79437600
   \<and> events (detectMotion True [Frame black_frame, Frame red_frame]) = 1"
proof -
  have h1: "black_frame = replicate (4 * (width * height)) 0"
    by (simp add: black_frame_def solid_frame_zero)
  have h2: "length red_frame = 4 * (width * height)"
    by (simp add: red_frame_def length_solid_frame)
  have h3: "\<forall>p < width * height. red_frame ! (4 * p) = 255 \<and> red_frame ! (4 * p + 1) = 0 \<and> red_frame ! (4 * p + 2) = 0"
    unfolding red_frame_def using nth_solid_frame by blast
  from red_saturation_scenario [OF h1 h2 h3, of True "[]"] h1 h2 show ?thesis
    by simp
qed

text \<open>
  C4 as stated gives the difference as 79,423,200; the code computes 79,437,600, which is
  \<open>649 * 480 * 255\<close>.
\<close>

theorem red_saturation_value_counterexample:
  "getFrameDifference red_frame black_frame \<noteq> Num 79423200"
  by (simp add: red_black)

lemma spec_difference_same: "spec_difference d d = 0"
proof -
  have "spec_pixel_delta d d = (\<lambda>p. 0)"
    by (rule ext) (simp add: spec_pixel_delta_def)
  then show ?thesis
    by (simp add: spec_difference_def)
qed

text \<open>
  C5. The difference of a frame (a whole number of 4-byte pixels) against itself is 0, a
  tick that compares a sample with an identical previous sample has no effect at all,
  and the run that samples the same frame twice fires no callback.
\<close>

theorem identical_frames_no_event:
  assumes "4 dvd length d"
  shows "getFrameDifference d d = Num 0
       \<and> snd (checkForMotion isLocal (s\<lparr>lastImageData := Some d\<rparr>) (Frame d)) = []
       \<and> events (detectMotion isLocal [Frame d, Frame d]) = 0"
proof -
  have d: "getFrameDifference d d = Num 0"
    using assms by (simp add: getFrameDifference_spec spec_difference_same)
  then show ?thesis
    by (simp add: checkForMotion_def detectMotion_idle motionThreshold_def)
qed

theorem identical_frames_no_event_witness:
  "4 dvd length black_frame
   \<and> getFrameDifference black_frame black_frame = Num 0
   \<and> events (detectMotion False [Frame black_frame, Frame black_frame]) = 0"
proof -
  have h: "4 dvd length black_frame"
    by (simp add: black_frame_def length_solid_frame)
  from identical_frames_no_event [OF h, of False detector_init] h show ?thesis
    by simp
qed

lemma spec_above_unavailable:
  "\<forall>x \<in> set pre. x = NoTrack \<or> x = BadElement \<Longrightarrow>
   spec_above p (pre @ ys) = replicate (length pre) False @ spec_above p ys"
  by (induction pre) auto

text \<open>
  C9. When no previous sample is stored, a tick that obtains a frame stores it as the
  previous sample and has no effect, whatever the frame holds; the detector starts with no
  previous sample, so in a run whose first obtained frame comes after any number of ticks
  without a frame, no callback has fired up to and including that tick.
\<close>

theorem first_sample_silent:
  assumes "lastImageData s = None" and "\<forall>x \<in> set pre. x = NoTrack \<or> x = BadElement"
  shows "checkForMotion isLocal s (Frame f) = (s\<lparr>lastImageData := Some f\<rparr>, [])
       \<and> events (detectMotion isLocal (pre @ [Frame f])) = 0
       \<and> lastImageData detector_init = None"
  using assms
  by (simp add: checkForMotion_def detectMotion_idle spec_above_unavailable detector_init_def)

theorem first_sample_silent_witness:
  "lastImageData detector_init = None
   \<and> checkForMotion True detector_init (Frame red_frame)
       = (detector_init\<lparr>lastImageData := Some red_frame\<rparr>, [])
   \<and> events (detectMotion True [NoTrack, BadElement, Frame red_frame]) = 0"
proof -
  have h1: "lastImageData detector_init = None"
    by (simp add: detector_init_def)
  have h2: "\<forall>x \<in> set [NoTrack, BadElement]. x = NoTrack \<or> x = BadElement"
    by simp
  from first_sample_silent [OF h1 h2, of True red_frame] h1 show ?thesis
    by simp
qed

section \<open>Properties of recording\<close>

lemma startRecording_fields:
  "recorders (startRecording now (Some el) st) = recorders st @ [Recording]"
  "mediaRecorder (startRecording now (Some el) st) = Some (length (recorders st))"
  "timers (startRecording now (Some el) st) = timers st @ [now + 5000]"
  "recordedChunks (startRecording now (Some el) st) = recordedChunks st"
  "gifInputs (startRecording now (Some el) st) = gifInputs st"
  by (simp_all add: startRecording_def)

text \<open>
  C3 (as amended). \<open>startRecording\<close> has no guard against a recording in progress: from
  every state, a call with a video element creates and starts one more recorder, so the
  number of recorders that are recording grows by one; the recorders that existed keep
  their state; the variable \<open>mediaRecorder\<close> now refers to the new recorder; one more
  stop timer is pending, due 5000 ms after the call; and the call leaves the chunks
  received so far, and their order, as they were.
\<close>

theorem second_start_is_not_rejected:
  "active_recorders (startRecording now (Some el) st) = Suc (active_recorders st)
   \<and> take (length (recorders st)) (recorders (startRecording now (Some el) st)) = recorders st
   \<and> mediaRecorder (startRecording now (Some el) st) = Some (length (recorders st))
   \<and> timers (startRecording now (Some el) st) = timers st @ [now + 5000]
   \<and> recordedChunks (startRecording now (Some el) st) = recordedChunks st"
  by (simp add: startRecording_fields active_recorders_def)

text \<open>
  C3 as stated fails: after a second call of \<open>startRecording\<close>, made 1000 ms after the
  first and before its timer, two recorders are recording, and the state is not the one
  the first call left.
\<close>

theorem second_start_two_active_recorders:
  "active_recorders (startRecording 1000 (Some 0) (startRecording 0 (Some 0) module_init)) = 2
   \<and> startRecording 1000 (Some 0) (startRecording 0 (Some 0) module_init)
       \<noteq> startRecording 0 (Some 0) module_init"
  by (simp add: startRecording_def active_recorders_def module_init_def)

lemma session_step:
  "recordedChunks (stopTimeout data (startRecording now (Some el) st))
     = recordedChunks st @ (if data = [] then [] else [data])"
  "gifInputs (stopTimeout data (startRecording now (Some el) st))
     = gifInputs st @ [concat (recordedChunks st) @ data]"
  by (cases "timers st";
      simp add: stopTimeout_def startRecording_def recorder_stop_def ondataavailable_def
        generateGif_def Let_def nth_append)+

text \<open>
  C8 (as amended). One call of \<open>startRecording\<close> at time \<open>now\<close> on the initial state
  leaves exactly one pending timer, due at \<open>now + 5000\<close>, and one recorder, recording.
  When that timer fires, no timer is left, the recorder is inactive, \<open>generateGif\<close> has
  run exactly once, on the data the recorder gathered, and the chunk sequence holds that
  data as its only chunk if it has positive size and is empty otherwise. From then on
  the session is sealed: a chunk from the stopped recorder is not appended, and there is
  no timer left to fire.
\<close>

theorem single_recording_lifecycle:
  "timers (startRecording now (Some el) module_init) = [now + 5000]
   \<and> recorders (startRecording now (Some el) module_init) = [Recording]
   \<and> timers (stopTimeout data (startRecording now (Some el) module_init)) = []
   \<and> recorders (stopTimeout data (startRecording now (Some el) module_init)) = [Inactive]
   \<and> gifInputs (stopTimeout data (startRecording now (Some el) module_init)) = [data]
   \<and> recordedChunks (stopTimeout data (startRecording now (Some el) module_init))
       = (if data = [] then [] else [data])
   \<and> recorder_dataavailable 0 late (stopTimeout data (startRecording now (Some el) module_init))
       = stopTimeout data (startRecording now (Some el) module_init)
   \<and> stopTimeout late (stopTimeout data (startRecording now (Some el) module_init))
       = stopTimeout data (startRecording now (Some el) module_init)"
  by (simp add: stopTimeout_def startRecording_def recorder_stop_def ondataavailable_def
        generateGif_def recorder_dataavailable_def module_init_def Let_def)

text \<open>
  C8 as stated fails in the non-empty part: when the recorder has gathered no data by the
  time it is stopped, the chunk of size 0 is not pushed and the sequence is empty.
\<close>

theorem empty_capture_empty_session:
  "recordedChunks (stopTimeout [] (startRecording 0 (Some 0) module_init)) = []"
  by (simp add: stopTimeout_def startRecording_def recorder_stop_def ondataavailable_def
        generateGif_def module_init_def Let_def)

theorem single_recording_lifecycle_witness:
  "timers (startRecording 0 (Some 0) module_init) = [5000]
   \<and> gifInputs (stopTimeout [26, 69, 223, 163] (startRecording 0 (Some 0) module_init)) = [[26, 69, 223, 163]]
   \<and> recordedChunks (stopTimeout [26, 69, 223, 163] (startRecording 0 (Some 0) module_init))
       = [[26, 69, 223, 163]]"
  using single_recording_lifecycle [of 0 0 "[26, 69, 223, 163]" "[]"]
  by simp

lemma sessions_general:
  "recordedChunks (sessions ds st)
     = recordedChunks st @ filter (\<lambda>d. d \<noteq> []) (map (\<lambda>s. snd (snd s)) ds)
   \<and> gifInputs (sessions ds st)
     = gifInputs st @ map (\<lambda>k. concat (recordedChunks st) @ concat (map (\<lambda>s. snd (snd s)) (take (Suc k) ds)))
                        [0..<length ds]"
proof (induction ds arbitrary: st)
  case Nil
  show ?case by simp
next
  case (Cons d ds)
  obtain now el data where d: "d = (now, el, data)"
    by (cases d) auto
  let ?st' = "stopTimeout data (startRecording now (Some el) st)"
  have cc: "concat (recordedChunks ?st') = concat (recordedChunks st) @ data"
    by (simp add: session_step)
  show ?case
    using Cons.IH [of ?st']
    by (simp add: d session_step cc map_upt_Suc del: upt_Suc)
qed

text \<open>
  C10. For recordings made one after the other from the initial state, the
  \<^verbatim>\<open>videoBlob\<close> that \<open>generateGif\<close> builds at the end of the \<open>n\<close>-th recording is the
  concatenation of the data of recordings 1 to \<open>n\<close>; there is one such blob per
  recording; and \<open>recordedChunks\<close> ends up holding every chunk of positive size of every
  recording: nothing is ever removed from it.
\<close>

theorem chunks_accumulate_across_sessions:
  assumes "1 \<le> n" and "n \<le> length ds"
  shows "gifInputs (sessions ds module_init) ! (n - 1) = concat (map (\<lambda>s. snd (snd s)) (take n ds))
       \<and> length (gifInputs (sessions ds module_init)) = length ds
       \<and> recordedChunks (sessions ds module_init) = filter (\<lambda>d. d \<noteq> []) (map (\<lambda>s. snd (snd s)) ds)"
proof -
  have r: "recordedChunks module_init = []" and g: "gifInputs module_init = []"
    by (simp_all add: module_init_def)
  from assms have "n - 1 < length ds" by simp
  moreover from assms have "Suc (n - 1) = n" by simp
  ultimately show ?thesis
    using sessions_general [of ds module_init]
    by (simp add: r g)
qed

theorem chunks_accumulate_across_sessions_witness:
  "gifInputs (sessions [(0, 0, [1, 2]), (9000, 0, [3]), (20000, 0, [4, 5])] module_init) ! 2
     = [1, 2, 3, 4, 5]
   \<and> gifInputs (sessions [(0, 0, [1, 2]), (9000, 0, [3]), (20000, 0, [4, 5])] module_init) ! 1
     = [1, 2, 3]"
proof -
  have h1: "(1::nat) \<le> 3" and h2: "(3::nat) \<le> length [(0::nat, 0::nat, [1, 2 :: byte]), (9000, 0, [3]), (20000, 0, [4, 5])]"
    and h3: "(1::nat) \<le> 2" and h4: "(2::nat) \<le> length [(0::nat, 0::nat, [1, 2 :: byte]), (9000, 0, [3]), (20000, 0, [4, 5])]"
    by simp_all
  from chunks_accumulate_across_sessions [OF h1 h2] chunks_accumulate_across_sessions [OF h3 h4] show ?thesis
    by simp
qed

section \<open>Properties of encoding\<close>

text \<open>The \<^verbatim>\<open>finished\<close> handler never gets as far as the sink.\<close>

lemma onfinished_throws: "onfinished blob gifUrl = Inl (ReferenceError ''setGifUrl'')"
  by (simp add: onfinished_def displayGif_def)

lemma timeupdates_append: "timeupdates (xs @ ys) enc = timeupdates ys (timeupdates xs enc)"
  by (induction xs arbitrary: enc) simp_all

lemma timeupdates_before_end:
  "\<forall>t \<in> set ts. t < 5 \<Longrightarrow>
   timeupdates ts enc = enc\<lparr>gif_frames := gif_frames enc @ map (\<lambda>u. \<lparr>drawnAt = u, delay = 100\<rparr>) ts\<rparr>"
  by (induction ts arbitrary: enc) (simp_all add: ontimeupdate_def)

text \<open>
  C6 (as amended). When the \<^verbatim>\<open>timeupdate\<close> events of the playback see the times \<open>pre\<close>,
  all below 5 s, and then a time of at least 5 s, \<^verbatim>\<open>gif.render()\<close> is called once, on
  exactly one frame per event of \<open>pre\<close>, in event order (frame \<open>i\<close> is the picture at
  the \<open>i\<close>-th time, so the order of the playback times is the order of the frames), each
  with delay 100; when the times of the events do not decrease, neither do those of the
  frames. The number of frames is the number of those events; the code does not tie it
  to 50.
\<close>

theorem rendered_frames_follow_timeupdates:
  assumes "\<forall>u \<in> set pre. u < 5" and "5 \<le> t"
  shows "rendered (timeupdates (pre @ [t]) encoder_init) = [map (\<lambda>u. \<lparr>drawnAt = u, delay = 100\<rparr>) pre]
       \<and> map drawnAt (hd (rendered (timeupdates (pre @ [t]) encoder_init))) = pre
       \<and> map delay (hd (rendered (timeupdates (pre @ [t]) encoder_init))) = replicate (length pre) 100
       \<and> (sorted pre \<longrightarrow> sorted (map drawnAt (hd (rendered (timeupdates (pre @ [t]) encoder_init)))))"
  using assms
  by (simp add: timeupdates_append timeupdates_before_end ontimeupdate_def encoder_init_def
        comp_def map_replicate_const)

theorem rendered_frames_follow_timeupdates_witness:
  "map drawnAt (hd (rendered (timeupdates ([1/4, 1/2, 3/4, 1] @ [5]) encoder_init))) = [1/4, 1/2, 3/4, 1]
   \<and> map delay (hd (rendered (timeupdates ([1/4, 1/2, 3/4, 1] @ [5]) encoder_init))) = [100, 100, 100, 100]
   \<and> sorted (map drawnAt (hd (rendered (timeupdates ([1/4, 1/2, 3/4, 1] @ [5]) encoder_init))))"
proof -
  have h1: "\<forall>u \<in> set [1/4, 1/2, 3/4, 1::rat]. u < 5" by simp
  have h2: "(5::rat) \<le> 5" by simp
  have h3: "sorted [1/4, 1/2, 3/4, 1::rat]" by simp
  from rendered_frames_follow_timeupdates [OF h1 h2] h3 show ?thesis
    by (simp add: numeral_eq_Suc)
qed

text \<open>
  C6 as stated fails in the frame count: with a \<^verbatim>\<open>timeupdate\<close> event every 250 ms the
  rendered GIF has 19 frames.
\<close>

theorem quarter_second_cadence_nineteen_frames:
  "length (hd (rendered (timeupdates
      [1/4, 1/2, 3/4, 1, 5/4, 3/2, 7/4, 2, 9/4, 5/2, 11/4, 3, 13/4, 7/2, 15/4, 4, 17/4, 9/2, 19/4, 5]
      encoder_init))) = 19"
  by (simp add: ontimeupdate_def encoder_init_def)

text \<open>
  C7 (as amended). The \<^verbatim>\<open>error\<close> handler of the video only appends one line to the
  console: that is its whole effect, so it reports nothing to a caller, adds no frame,
  starts no render and yields no artifact. The code has no check for zero frames: when
  the first \<^verbatim>\<open>timeupdate\<close> event already sees a time of at least 5 s, so that no frame
  has been added, \<^verbatim>\<open>gif.render()\<close> is called all the same; on a GIF without frames the
  call throws \<^verbatim>\<open>'Width and height must be set prior to rendering'\<close> out of the listener,
  and no artifact follows. No empty artifact is ever handed on towards the sink: every
  render that can finish has at least one frame.
\<close>

theorem encoder_failures_only_logged:
  assumes "5 \<le> t"
  shows "onerror enc = enc\<lparr>enc_console := enc_console enc @ [ConsoleError ''Error loading video:'']\<rparr>
       \<and> gif_frames (onerror enc) = gif_frames enc
       \<and> rendered (onerror enc) = rendered enc
       \<and> finished_events (onerror enc) = finished_events enc
       \<and> rendered (ontimeupdate t encoder_init) = [[]]
       \<and> enc_console (ontimeupdate t encoder_init) = []
       \<and> ontimeupdate_throws False t encoder_init
           = Some (Error ''Width and height must be set prior to rendering'')
       \<and> finished_events (ontimeupdate t encoder_init) = []
       \<and> [] \<notin> set (finished_events enc)"
  using assms
  by (simp add: onerror_def ontimeupdate_def encoder_init_def finished_events_def
        ontimeupdate_throws_def gif_render_def)

theorem encoder_failures_only_logged_witness:
  "rendered (ontimeupdate 6 encoder_init) = [[]]
   \<and> rendered (onerror (ontimeupdate 6 encoder_init)) = [[]]
   \<and> enc_console (ontimeupdate 6 encoder_init) = []
   \<and> ontimeupdate_throws False 6 encoder_init
       = Some (Error ''Width and height must be set prior to rendering'')
   \<and> finished_events (onerror (ontimeupdate 6 encoder_init)) = []"
proof -
  have h: "(5::rat) \<le> 6" by simp
  from encoder_failures_only_logged [OF h, of "ontimeupdate 6 encoder_init", THEN conjunct2]
  show ?thesis
    by simp
qed

text \<open>
  C7 as stated fails: when the clip fails to load, nothing is surfaced. The handler
  leaves one console line and nothing else.
\<close>

theorem load_error_only_logged:
  "onerror encoder_init = encoder_init\<lparr>enc_console := [ConsoleError ''Error loading video:'']\<rparr>"
  by (simp add: onerror_def encoder_init_def)

end
